theory Spec2Isabelle
  imports Main "HOL-Library.Word"
begin

section \<open>The pointer casts of keepalived's align.h\<close>

text \<open>
  \<^verbatim>\<open>src/tools/keepalived/lib/align.h\<close> defines four function-like macros,
  \<^verbatim>\<open>PTR_CAST\<close>, \<^verbatim>\<open>PTR_CAST_CONST\<close>, \<^verbatim>\<open>PTR_CAST2\<close> and \<^verbatim>\<open>PTR_CAST2_CONST\<close>, on top of
  \<^verbatim>\<open>PTR_CAST_ALL\<close> and \<^verbatim>\<open>PTR_CAST2_ALL\<close>. Two configuration macros select the text of
  the latter two: \<^verbatim>\<open>CAST_VIA_VOID\<close> and \<^verbatim>\<open>CHECK_CAST_ALIGN\<close>.

  A macro is embedded as a function of the configuration, of its macro arguments, of the
  variables in scope where it is used and of the contents of its own locals before they
  are initialised. The pointer argument \<^verbatim>\<open>__ptr\<close> is given by its spelling and by its
  value as a function of the variables in scope. The function returns the value of the
  statement expression together with the calls of \<^verbatim>\<open>log_message\<close> and \<^verbatim>\<open>printf\<close> it
  makes, in order.

  Addresses are words of the pointer's width \<open>'a\<close>. The header is built for Linux (LP64
  and ILP32), where \<^verbatim>\<open>long\<close> and \<^verbatim>\<open>size_t\<close> have that width too.
\<close>

subsection \<open>Configuration, types and pointers\<close>

text \<open>The two \<^verbatim>\<open>#ifdef\<close>s of the header: lines 74 and 84.\<close>

record config =
  cast_via_void :: bool
  check_cast_align :: bool

text \<open>The macro argument \<^verbatim>\<open>__const\<close>: empty (lines 105, 108) or \<^verbatim>\<open>const\<close> (lines 106, 109).\<close>

datatype cq = Unqualified | Const

text \<open>
  What the macros use of a type argument (\<^verbatim>\<open>__type\<close>, \<^verbatim>\<open>__type1\<close>): its spelling
  and \<^verbatim>\<open>__alignof__\<close> of it, a \<^verbatim>\<open>size_t\<close>.
\<close>

record (overloaded) 'a ctype =
  ty_name :: string
  ty_alignof :: "'a word"

text \<open>
  What the macros use of the member \<^verbatim>\<open>__field\<close> of \<^verbatim>\<open>__type1\<close>: its name, its
  declared type and its byte offset in \<^verbatim>\<open>__type1\<close>, which the compiler fixes.
\<close>

record (overloaded) 'a cfield =
  f_name :: string
  f_type :: string
  f_offset :: "'a word"

text \<open>A pointer value: the qualifier and the name of the pointed-to type, and the address.\<close>

record (overloaded) 'a ptr =
  p_const :: cq
  p_type :: string
  p_addr :: "'a word"

text \<open>A cast \<^verbatim>\<open>(c t *) q\<close>, and the conversion of an initialiser to \<^verbatim>\<open>c void *\<close>.\<close>

definition cast_ptr :: "cq \<Rightarrow> string \<Rightarrow> 'a ptr \<Rightarrow> 'a ptr" where
  "cast_ptr c t q = \<lparr>p_const = c, p_type = t, p_addr = p_addr q\<rparr>"

text \<open>
  \<^verbatim>\<open>&(q->__field)\<close>: the address of the member, \<^verbatim>\<open>q\<close>'s address plus the member's
  offset, as a pointer to the member's type with \<^verbatim>\<open>q\<close>'s qualifier. The sum wraps in
  the model; in C an address past the object is undefined.
\<close>

definition field_addr :: "'a::len cfield \<Rightarrow> 'a ptr \<Rightarrow> 'a ptr" where
  "field_addr fld q = \<lparr>p_const = p_const q, p_type = f_type fld, p_addr = p_addr q + f_offset fld\<rparr>"

text \<open>
  Lines 74 to 82: \<^verbatim>\<open>__CAST_PTR(__const)\<close> is the cast \<^verbatim>\<open>(__const void *)\<close> under
  \<^verbatim>\<open>CAST_VIA_VOID\<close> and empty otherwise.
\<close>

definition CAST_PTR :: "config \<Rightarrow> cq \<Rightarrow> 'a ptr \<Rightarrow> 'a ptr" where
  "CAST_PTR cfg c q = (if cast_via_void cfg then cast_ptr c ''void'' q else q)"

subsection \<open>The diagnostic calls\<close>

datatype priority = LOG_INFO

datatype sink = Log_message priority | Printf

text \<open>
  The text a \<^verbatim>\<open>#\<close> operator turns into a string: a macro argument as the caller wrote
  it, or the second argument that line 96 gives to \<^verbatim>\<open>PTR_CAST_ALL\<close>,
  \<^verbatim>\<open>&(((__const __type1 *) __CAST_PTR(__const) (sav_ptr1))->__field)\<close>, with
  \<^verbatim>\<open>__const\<close>, \<^verbatim>\<open>__type1\<close> and \<^verbatim>\<open>__field\<close> replaced. \<^verbatim>\<open>#\<close> takes the spelling of
  the argument before macro replacement, so \<^verbatim>\<open>__CAST_PTR\<close> stays as it is written there,
  whatever the configuration.
\<close>

datatype mtext = Arg string | Field_addr_text cq string string

text \<open>A format string: adjacent string literals and stringified arguments, in order.\<close>

datatype piece = Lit string | Stringified mtext

record (overloaded) 'a call =
  c_fn :: sink
  c_fmt :: "piece list"
  c_align :: "'a word"
  c_addr :: "'a word"

text \<open>
  The format of lines 88 and 95:
  \<^verbatim>\<open>"Alignment error - (" #__type " *)(" #__ptr ") - alignment %zu, address %p"\<close>.
\<close>

definition alignment_fmt :: "string \<Rightarrow> mtext \<Rightarrow> piece list" where
  "alignment_fmt t e =
     [Lit ''Alignment error - ('', Stringified (Arg t), Lit '' *)('', Stringified e,
      Lit '') - alignment %zu, address %p'']"

subsection \<open>Scopes and arguments\<close>

text \<open>
  The pointer variables in scope, by name, with the address each holds. The value of an
  argument \<^verbatim>\<open>__ptr\<close> is a function of them: \<^verbatim>\<open>buf\<close> is
  \<open>\<lambda>sc. \<lparr>p_const = Unqualified, p_type = ''char'', p_addr = sc ''buf''\<rparr>\<close> for a
  \<^verbatim>\<open>char *buf\<close>.

  The declarations of lines 86 and 93, \<^verbatim>\<open>__const void *sav_ptr = __ptr;\<close> and
  \<^verbatim>\<open>__const void *sav_ptr1 = __ptr;\<close>, put the macro's local in scope before the
  initialiser is evaluated. An argument that names \<^verbatim>\<open>sav_ptr\<close> (or \<^verbatim>\<open>sav_ptr1\<close>) then
  reads the macro's local, not yet initialised, and not the caller's variable. C leaves
  that content indeterminate; the macros take it as a parameter, \<open>u\<close> for \<^verbatim>\<open>sav_ptr\<close> and
  \<open>u1\<close> for \<^verbatim>\<open>sav_ptr1\<close>.
\<close>

type_synonym 'a scope = "string \<Rightarrow> 'a word"

subsection \<open>The macros\<close>

text \<open>
  Lines 85 to 90 under \<^verbatim>\<open>CHECK_CAST_ALIGN\<close>, lines 99 and 100 otherwise. In
  \<^verbatim>\<open>(long)sav_ptr % __alignof__(__type)\<close> the right operand is a \<^verbatim>\<open>size_t\<close>, so the
  usual arithmetic conversions make the remainder unsigned: \<open>mod\<close> on words.
  \<^verbatim>\<open>__alignof__\<close> is never 0.
\<close>

definition PTR_CAST_ALL ::
  "config \<Rightarrow> 'a::len ctype \<Rightarrow> mtext \<Rightarrow> cq \<Rightarrow> ('a scope \<Rightarrow> 'a ptr) \<Rightarrow> 'a scope \<Rightarrow> 'a word
     \<Rightarrow> 'a ptr \<times> 'a call list" where
  "PTR_CAST_ALL cfg ty e c val env u =
     (if check_cast_align cfg then
        (let sav_ptr = cast_ptr c ''void'' (val (env(''sav_ptr'' := u)))
         in (cast_ptr c (ty_name ty) (CAST_PTR cfg c sav_ptr),
             if p_addr sav_ptr mod ty_alignof ty \<noteq> 0
             then [\<lparr>c_fn = Log_message LOG_INFO, c_fmt = alignment_fmt (ty_name ty) e,
                    c_align = ty_alignof ty, c_addr = p_addr sav_ptr\<rparr>]
             else []))
      else (cast_ptr c (ty_name ty) (CAST_PTR cfg c (val env)), []))"

text \<open>
  Lines 92 to 97 under \<^verbatim>\<open>CHECK_CAST_ALIGN\<close>, lines 101 and 102 otherwise. The argument
  that line 96 gives to \<^verbatim>\<open>PTR_CAST_ALL\<close> reads \<^verbatim>\<open>sav_ptr1\<close>, by then initialised.
\<close>

definition PTR_CAST2_ALL ::
  "config \<Rightarrow> 'a::len ctype \<Rightarrow> 'a ctype \<Rightarrow> mtext \<Rightarrow> 'a cfield \<Rightarrow> cq \<Rightarrow> ('a scope \<Rightarrow> 'a ptr)
     \<Rightarrow> 'a scope \<Rightarrow> 'a word \<Rightarrow> 'a word \<Rightarrow> 'a ptr \<times> 'a call list" where
  "PTR_CAST2_ALL cfg ty ty1 e fld c val env u1 u =
     (if check_cast_align cfg then
        (let sav_ptr1 = cast_ptr c ''void'' (val (env(''sav_ptr1'' := u1)));
             out1 = (if p_addr sav_ptr1 mod ty_alignof ty1 \<noteq> 0
                     then [\<lparr>c_fn = Printf, c_fmt = alignment_fmt (ty_name ty1) e,
                            c_align = ty_alignof ty1, c_addr = p_addr sav_ptr1\<rparr>]
                     else []);
             r = PTR_CAST_ALL cfg ty (Field_addr_text c (ty_name ty1) (f_name fld)) c
                   (\<lambda>sc. field_addr fld (cast_ptr c (ty_name ty1) (CAST_PTR cfg c
                      \<lparr>p_const = c, p_type = ''void'', p_addr = sc ''sav_ptr1''\<rparr>)))
                   (env(''sav_ptr1'' := p_addr sav_ptr1)) u
         in (fst r, out1 @ snd r))
      else (cast_ptr c (ty_name ty)
              (CAST_PTR cfg c
                 (field_addr fld (cast_ptr c (ty_name ty1) (CAST_PTR cfg c (val env))))),
            []))"

text \<open>Lines 105 to 109.\<close>

definition PTR_CAST ::
  "config \<Rightarrow> 'a::len ctype \<Rightarrow> string \<Rightarrow> ('a scope \<Rightarrow> 'a ptr) \<Rightarrow> 'a scope \<Rightarrow> 'a word
     \<Rightarrow> 'a ptr \<times> 'a call list" where
  "PTR_CAST cfg ty e val env u = PTR_CAST_ALL cfg ty (Arg e) Unqualified val env u"

definition PTR_CAST_CONST ::
  "config \<Rightarrow> 'a::len ctype \<Rightarrow> string \<Rightarrow> ('a scope \<Rightarrow> 'a ptr) \<Rightarrow> 'a scope \<Rightarrow> 'a word
     \<Rightarrow> 'a ptr \<times> 'a call list" where
  "PTR_CAST_CONST cfg ty e val env u = PTR_CAST_ALL cfg ty (Arg e) Const val env u"

definition PTR_CAST2 ::
  "config \<Rightarrow> 'a::len ctype \<Rightarrow> 'a ctype \<Rightarrow> string \<Rightarrow> 'a cfield \<Rightarrow> ('a scope \<Rightarrow> 'a ptr)
     \<Rightarrow> 'a scope \<Rightarrow> 'a word \<Rightarrow> 'a word \<Rightarrow> 'a ptr \<times> 'a call list" where
  "PTR_CAST2 cfg ty ty1 e fld val env u1 u =
     PTR_CAST2_ALL cfg ty ty1 (Arg e) fld Unqualified val env u1 u"

definition PTR_CAST2_CONST ::
  "config \<Rightarrow> 'a::len ctype \<Rightarrow> 'a ctype \<Rightarrow> string \<Rightarrow> 'a cfield \<Rightarrow> ('a scope \<Rightarrow> 'a ptr)
     \<Rightarrow> 'a scope \<Rightarrow> 'a word \<Rightarrow> 'a word \<Rightarrow> 'a ptr \<times> 'a call list" where
  "PTR_CAST2_CONST cfg ty ty1 e fld val env u1 u =
     PTR_CAST2_ALL cfg ty ty1 (Arg e) fld Const val env u1 u"

subsection \<open>Comparing the diagnostics of two variants\<close>

text \<open>
  The qualifier is spelled in one place of a diagnostic: the stringified second argument
  of line 96. These functions set it to \<open>c\<close> there and leave the rest of a call as it is.
\<close>

fun requalify_text :: "cq \<Rightarrow> mtext \<Rightarrow> mtext" where
  "requalify_text c (Arg s) = Arg s"
| "requalify_text c (Field_addr_text _ t f) = Field_addr_text c t f"

fun requalify_piece :: "cq \<Rightarrow> piece \<Rightarrow> piece" where
  "requalify_piece c (Lit s) = Lit s"
| "requalify_piece c (Stringified m) = Stringified (requalify_text c m)"

definition requalify_call :: "cq \<Rightarrow> 'a call \<Rightarrow> 'a call" where
  "requalify_call c d = d\<lparr>c_fmt := map (requalify_piece c) (c_fmt d)\<rparr>"

section \<open>Properties\<close>

subsection \<open>What each macro returns and emits\<close>

text \<open>
  The address a macro works on is the value of its argument where the macro evaluates
  it: under \<^verbatim>\<open>CHECK_CAST_ALIGN\<close> with the macro's local in scope, otherwise in the
  caller's scope.
\<close>

lemma PTR_CAST_ALL_fst:
  "fst (PTR_CAST_ALL cfg ty e c val env u) =
     \<lparr>p_const = c, p_type = ty_name ty,
      p_addr = p_addr (val (if check_cast_align cfg then env(''sav_ptr'' := u) else env))\<rparr>"
  by (simp add: PTR_CAST_ALL_def CAST_PTR_def cast_ptr_def Let_def)

lemma PTR_CAST_ALL_snd:
  "snd (PTR_CAST_ALL cfg ty e c val env u) =
     (if check_cast_align cfg \<and> p_addr (val (env(''sav_ptr'' := u))) mod ty_alignof ty \<noteq> 0
      then [\<lparr>c_fn = Log_message LOG_INFO, c_fmt = alignment_fmt (ty_name ty) e,
             c_align = ty_alignof ty, c_addr = p_addr (val (env(''sav_ptr'' := u)))\<rparr>]
      else [])"
  by (simp add: PTR_CAST_ALL_def cast_ptr_def Let_def)

lemma PTR_CAST2_ALL_fst:
  "fst (PTR_CAST2_ALL cfg ty ty1 e fld c val env u1 u) =
     \<lparr>p_const = c, p_type = ty_name ty,
      p_addr = p_addr (val (if check_cast_align cfg then env(''sav_ptr1'' := u1) else env))
        + f_offset fld\<rparr>"
  by (simp add: PTR_CAST2_ALL_def PTR_CAST_ALL_fst CAST_PTR_def cast_ptr_def field_addr_def
      Let_def)

lemma PTR_CAST2_ALL_snd:
  "snd (PTR_CAST2_ALL cfg ty ty1 e fld c val env u1 u) =
     (if check_cast_align cfg \<and> p_addr (val (env(''sav_ptr1'' := u1))) mod ty_alignof ty1 \<noteq> 0
      then [\<lparr>c_fn = Printf, c_fmt = alignment_fmt (ty_name ty1) e,
             c_align = ty_alignof ty1, c_addr = p_addr (val (env(''sav_ptr1'' := u1)))\<rparr>]
      else []) @
     (if check_cast_align cfg \<and>
         (p_addr (val (env(''sav_ptr1'' := u1))) + f_offset fld) mod ty_alignof ty \<noteq> 0
      then [\<lparr>c_fn = Log_message LOG_INFO,
             c_fmt = alignment_fmt (ty_name ty) (Field_addr_text c (ty_name ty1) (f_name fld)),
             c_align = ty_alignof ty,
             c_addr = p_addr (val (env(''sav_ptr1'' := u1))) + f_offset fld\<rparr>]
      else [])"
  by (simp add: PTR_CAST2_ALL_def PTR_CAST_ALL_snd CAST_PTR_def cast_ptr_def field_addr_def
      Let_def)

text \<open>
  The test of lines 87 and 94 on words is the test on the numbers: the remainder of the
  address by the alignment is not 0. (For the alignment 0, which no type has, both sides
  say that the address is not 0.)
\<close>

lemma misaligned_word: "(a mod b \<noteq> (0 :: 'a::len word)) = (unat a mod unat b \<noteq> 0)"
  by (simp add: unat_mod unat_eq_0 [symmetric])

subsection \<open>Arguments that do not name the macro's local\<close>

text \<open>
  An argument does not name \<^verbatim>\<open>sav_ptr\<close> when its value is the same whatever \<^verbatim>\<open>sav_ptr\<close>
  holds. For such an argument the whole-object casts return the caller's address in
  every configuration, and under \<^verbatim>\<open>CHECK_CAST_ALIGN\<close> they report it when it is
  misaligned. The same holds for the member casts and \<^verbatim>\<open>sav_ptr1\<close>.
\<close>

lemma PTR_CAST_address_no_capture:
  assumes "\<And>w. val (env(''sav_ptr'' := w)) = val env"
  shows "p_addr (fst (PTR_CAST cfg ty e val env u)) = p_addr (val env) \<and>
         p_addr (fst (PTR_CAST_CONST cfg ty e val env u)) = p_addr (val env)"
  by (simp add: PTR_CAST_def PTR_CAST_CONST_def PTR_CAST_ALL_fst assms)

lemma PTR_CAST2_address_no_capture:
  assumes "\<And>w. val (env(''sav_ptr1'' := w)) = val env"
  shows "p_addr (fst (PTR_CAST2 cfg ty ty1 e fld val env u1 u)) = p_addr (val env) + f_offset fld \<and>
         p_addr (fst (PTR_CAST2_CONST cfg ty ty1 e fld val env u1 u)) =
           p_addr (val env) + f_offset fld"
  by (simp add: PTR_CAST2_def PTR_CAST2_CONST_def PTR_CAST2_ALL_fst assms)

lemma PTR_CAST_ALL_misaligned_no_capture:
  assumes "check_cast_align cfg"
    and "\<And>w. val (env(''sav_ptr'' := w)) = val env"
    and "unat (p_addr (val env)) mod unat (ty_alignof ty) \<noteq> 0"
  shows "PTR_CAST_ALL cfg ty e c val env u =
    (\<lparr>p_const = c, p_type = ty_name ty, p_addr = p_addr (val env)\<rparr>,
     [\<lparr>c_fn = Log_message LOG_INFO, c_fmt = alignment_fmt (ty_name ty) e,
       c_align = ty_alignof ty, c_addr = p_addr (val env)\<rparr>])"
proof -
  from assms(3) have "p_addr (val env) mod ty_alignof ty \<noteq> 0"
    by (simp add: misaligned_word)
  with assms(1) show ?thesis
    by (simp add: prod_eq_iff PTR_CAST_ALL_fst PTR_CAST_ALL_snd assms(2))
qed

subsection \<open>The claims\<close>

text \<open>
  C1. \<^verbatim>\<open>PTR_CAST\<close> and \<^verbatim>\<open>PTR_CAST_CONST\<close> are to return a pointer with the address of
  their argument in every configuration. They do for an argument that does not name
  \<^verbatim>\<open>sav_ptr\<close> (lemma \<open>PTR_CAST_address_no_capture\<close>), and without \<^verbatim>\<open>CHECK_CAST_ALIGN\<close> for
  every argument. Under \<^verbatim>\<open>CHECK_CAST_ALIGN\<close> the declaration of line 86 captures an
  argument that names \<^verbatim>\<open>sav_ptr\<close>: for a caller whose \<^verbatim>\<open>char *sav_ptr\<close> holds \<^verbatim>\<open>0x1001\<close>,
  \<^verbatim>\<open>PTR_CAST(T, sav_ptr)\<close> returns the content \<open>u\<close> of the macro's uninitialised local,
  where lines 99 and 100 return \<^verbatim>\<open>0x1001\<close>.
\<close>

theorem PTR_CAST_reads_own_sav_ptr:
  "p_addr (fst (PTR_CAST \<lparr>cast_via_void = v, check_cast_align = True\<rparr> ty ''sav_ptr''
     (\<lambda>sc. \<lparr>p_const = Unqualified, p_type = ''char'', p_addr = sc ''sav_ptr''\<rparr>)
     ((\<lambda>_. 0)(''sav_ptr'' := 0x1001 :: 64 word)) u)) = u \<and>
   p_addr (fst (PTR_CAST \<lparr>cast_via_void = v, check_cast_align = False\<rparr> ty ''sav_ptr''
     (\<lambda>sc. \<lparr>p_const = Unqualified, p_type = ''char'', p_addr = sc ''sav_ptr''\<rparr>)
     ((\<lambda>_. 0)(''sav_ptr'' := 0x1001 :: 64 word)) u)) = 0x1001"
  by (simp add: PTR_CAST_def PTR_CAST_ALL_fst)

text \<open>
  C2. \<^verbatim>\<open>PTR_CAST2\<close> and \<^verbatim>\<open>PTR_CAST2_CONST\<close> are to return a pointer whose address is the
  argument's address plus the offset of the member in the intermediate type, in every
  configuration. They do for an argument that does not name \<^verbatim>\<open>sav_ptr1\<close> (lemma
  \<open>PTR_CAST2_address_no_capture\<close>), and without \<^verbatim>\<open>CHECK_CAST_ALIGN\<close> for every argument.
  Under \<^verbatim>\<open>CHECK_CAST_ALIGN\<close> the declaration of line 93 captures an argument that names
  \<^verbatim>\<open>sav_ptr1\<close>: for a caller whose \<^verbatim>\<open>char *sav_ptr1\<close> holds \<^verbatim>\<open>0x1004\<close> and a member at
  offset 2, \<^verbatim>\<open>PTR_CAST2(T, I, sav_ptr1, f)\<close> returns the content \<open>u1\<close> of the macro's
  uninitialised local plus 2, where lines 101 and 102 return \<^verbatim>\<open>0x1006\<close>.
\<close>

theorem PTR_CAST2_reads_own_sav_ptr1:
  "p_addr (fst (PTR_CAST2 \<lparr>cast_via_void = v, check_cast_align = True\<rparr> ty ty1 ''sav_ptr1''
     \<lparr>f_name = ''len'', f_type = ''uint16_t'', f_offset = 2\<rparr>
     (\<lambda>sc. \<lparr>p_const = Unqualified, p_type = ''char'', p_addr = sc ''sav_ptr1''\<rparr>)
     ((\<lambda>_. 0)(''sav_ptr1'' := 0x1004 :: 64 word)) u1 u)) = u1 + 2 \<and>
   p_addr (fst (PTR_CAST2 \<lparr>cast_via_void = v, check_cast_align = False\<rparr> ty ty1 ''sav_ptr1''
     \<lparr>f_name = ''len'', f_type = ''uint16_t'', f_offset = 2\<rparr>
     (\<lambda>sc. \<lparr>p_const = Unqualified, p_type = ''char'', p_addr = sc ''sav_ptr1''\<rparr>)
     ((\<lambda>_. 0)(''sav_ptr1'' := 0x1004 :: 64 word)) u1 u)) = 0x1006"
  by (simp add: PTR_CAST2_def PTR_CAST2_ALL_fst)

text \<open>
  C3. Under \<^verbatim>\<open>CHECK_CAST_ALIGN\<close>, when the address is not a multiple of the alignment of
  the target type, the whole-object cast is to make exactly one diagnostic call, with
  that alignment and the address, and to return the address. It does for an argument that
  does not name \<^verbatim>\<open>sav_ptr\<close> (lemma \<open>PTR_CAST_ALL_misaligned_no_capture\<close>). For an
  argument that names it, line 87 tests the macro's uninitialised local: for a caller
  whose \<^verbatim>\<open>char *sav_ptr\<close> holds \<^verbatim>\<open>0x1001\<close>, a target type of alignment 4 and a local
  that holds 0, \<^verbatim>\<open>PTR_CAST_ALL\<close> makes no call and returns the address 0.
\<close>

theorem PTR_CAST_ALL_sav_ptr_not_reported:
  "PTR_CAST_ALL \<lparr>cast_via_void = v, check_cast_align = True\<rparr>
     \<lparr>ty_name = ''uint32_t'', ty_alignof = 4\<rparr> (Arg ''sav_ptr'') c
     (\<lambda>sc. \<lparr>p_const = Unqualified, p_type = ''char'', p_addr = sc ''sav_ptr''\<rparr>)
     ((\<lambda>_. 0)(''sav_ptr'' := 0x1001 :: 64 word)) 0 =
   (\<lparr>p_const = c, p_type = ''uint32_t'', p_addr = 0\<rparr>, [])"
  by (simp add: prod_eq_iff PTR_CAST_ALL_fst PTR_CAST_ALL_snd)




text \<open>
  C5. Under \<^verbatim>\<open>CHECK_CAST_ALIGN\<close>, \<^verbatim>\<open>PTR_CAST2_ALL\<close> checks the base address against the
  alignment of the intermediate type and then the member's address against the alignment
  of the target type (lemma \<open>PTR_CAST2_ALL_snd\<close>). The diagnostics of the two checks do
  not go to one sink: the first is a call of \<^verbatim>\<open>printf\<close> (line 95), the second a call of
  \<^verbatim>\<open>log_message\<close> (line 88), which is what \<^verbatim>\<open>PTR_CAST_ALL\<close> uses and what the header's
  comment describes. Here the intermediate type \<^verbatim>\<open>struct hdr\<close> has alignment 8 and a
  \<^verbatim>\<open>uint16_t\<close> member \<^verbatim>\<open>len\<close> at offset 2; at the address \<^verbatim>\<open>0x1004\<close> the first check
  fails and the second passes, and the only diagnostic is a call of \<^verbatim>\<open>printf\<close>.
\<close>

theorem PTR_CAST2_first_stage_printf:
  "snd (PTR_CAST2 \<lparr>cast_via_void = False, check_cast_align = True\<rparr>
     \<lparr>ty_name = ''uint16_t'', ty_alignof = 2\<rparr> \<lparr>ty_name = ''struct hdr'', ty_alignof = 8\<rparr>
     ''buf'' \<lparr>f_name = ''len'', f_type = ''uint16_t'', f_offset = 2\<rparr>
     (\<lambda>sc. \<lparr>p_const = Unqualified, p_type = ''char'', p_addr = sc ''buf''\<rparr>)
     (env(''buf'' := 0x1004 :: 64 word)) u1 u) =
   [\<lparr>c_fn = Printf, c_fmt = alignment_fmt ''struct hdr'' (Arg ''buf''),
     c_align = 8, c_addr = 0x1004\<rparr>]"
  by (simp add: PTR_CAST2_def PTR_CAST2_ALL_snd)

text \<open>
  C6. With \<^verbatim>\<open>struct I { char pad[1]; uint32_t x; }\<close>, where \<^verbatim>\<open>x\<close> is at offset 4 and
  the structure has alignment 4, and the address \<^verbatim>\<open>0x1001\<close>, \<^verbatim>\<open>PTR_CAST2\<close> under
  \<^verbatim>\<open>CHECK_CAST_ALIGN\<close> computes the member's address \<^verbatim>\<open>0x1005\<close>, makes a diagnostic call
  with the alignment 4 and the address \<^verbatim>\<open>0x1005\<close>, and returns a pointer with the
  address \<^verbatim>\<open>0x1005\<close>. Before that call it reports the base address \<^verbatim>\<open>0x1001\<close>, which
  is misaligned for \<^verbatim>\<open>struct I\<close>. The argument is one whose value is \<^verbatim>\<open>0x1001\<close> in
  every scope.
\<close>

theorem PTR_CAST2_pad_example:
  "PTR_CAST2 \<lparr>cast_via_void = v, check_cast_align = True\<rparr>
     \<lparr>ty_name = ''uint32_t'', ty_alignof = 4\<rparr> \<lparr>ty_name = ''struct I'', ty_alignof = 4\<rparr>
     e \<lparr>f_name = ''x'', f_type = ''uint32_t'', f_offset = 4\<rparr>
     (\<lambda>_. \<lparr>p_const = Unqualified, p_type = ''char'', p_addr = 0x1001 :: 64 word\<rparr>) env u1 u =
   (\<lparr>p_const = Unqualified, p_type = ''uint32_t'', p_addr = 0x1005\<rparr>,
    [\<lparr>c_fn = Printf, c_fmt = alignment_fmt ''struct I'' (Arg e),
      c_align = 4, c_addr = 0x1001\<rparr>,
     \<lparr>c_fn = Log_message LOG_INFO,
      c_fmt = alignment_fmt ''uint32_t'' (Field_addr_text Unqualified ''struct I'' ''x''),
      c_align = 4, c_addr = 0x1005\<rparr>])"
  by (simp add: prod_eq_iff PTR_CAST2_def PTR_CAST2_ALL_fst PTR_CAST2_ALL_snd)

text \<open>
  C7. With the argument, the scope, the types and \<^verbatim>\<open>CHECK_CAST_ALIGN\<close> fixed, defining
  \<^verbatim>\<open>CAST_VIA_VOID\<close> or not changes neither the pointer returned nor the diagnostic calls
  made: each macro under \<^verbatim>\<open>CAST_VIA_VOID\<close> equals the macro without it.
\<close>

theorem cast_via_void_irrelevant:
  "PTR_CAST_ALL (cfg\<lparr>cast_via_void := True\<rparr>) ty e c val env u =
     PTR_CAST_ALL (cfg\<lparr>cast_via_void := False\<rparr>) ty e c val env u \<and>
   PTR_CAST2_ALL (cfg\<lparr>cast_via_void := True\<rparr>) ty ty1 e fld c val env u1 u =
     PTR_CAST2_ALL (cfg\<lparr>cast_via_void := False\<rparr>) ty ty1 e fld c val env u1 u"
proof
  show "PTR_CAST_ALL (cfg\<lparr>cast_via_void := True\<rparr>) ty e c val env u =
     PTR_CAST_ALL (cfg\<lparr>cast_via_void := False\<rparr>) ty e c val env u"
    by (rule prod_eqI) (simp_all add: PTR_CAST_ALL_fst PTR_CAST_ALL_snd)
  show "PTR_CAST2_ALL (cfg\<lparr>cast_via_void := True\<rparr>) ty ty1 e fld c val env u1 u =
     PTR_CAST2_ALL (cfg\<lparr>cast_via_void := False\<rparr>) ty ty1 e fld c val env u1 u"
    by (rule prod_eqI) (simp_all add: PTR_CAST2_ALL_fst PTR_CAST2_ALL_snd)
qed







text \<open>
  C10, amended. For every argument, every scope, every type and every configuration, the
  variant with \<^verbatim>\<open>const\<close> returns the pointer of the variant without, qualified
  \<^verbatim>\<open>const\<close>, so with the same address. \<^verbatim>\<open>PTR_CAST_CONST\<close> makes the diagnostic calls of
  \<^verbatim>\<open>PTR_CAST\<close>. \<^verbatim>\<open>PTR_CAST2_CONST\<close> makes the diagnostic calls of \<^verbatim>\<open>PTR_CAST2\<close> with the
  qualifier set in the quoted expression of line 96: the same calls to the same functions
  with the same alignments and addresses, under the same conditions.
\<close>

theorem const_variants_agree:
  "fst (PTR_CAST_CONST cfg ty e val env u) =
     (fst (PTR_CAST cfg ty e val env u))\<lparr>p_const := Const\<rparr> \<and>
   snd (PTR_CAST_CONST cfg ty e val env u) = snd (PTR_CAST cfg ty e val env u) \<and>
   fst (PTR_CAST2_CONST cfg ty ty1 e fld val env u1 u) =
     (fst (PTR_CAST2 cfg ty ty1 e fld val env u1 u))\<lparr>p_const := Const\<rparr> \<and>
   snd (PTR_CAST2_CONST cfg ty ty1 e fld val env u1 u) =
     map (requalify_call Const) (snd (PTR_CAST2 cfg ty ty1 e fld val env u1 u)) \<and>
   map c_fn (snd (PTR_CAST2_CONST cfg ty ty1 e fld val env u1 u)) =
     map c_fn (snd (PTR_CAST2 cfg ty ty1 e fld val env u1 u)) \<and>
   map c_align (snd (PTR_CAST2_CONST cfg ty ty1 e fld val env u1 u)) =
     map c_align (snd (PTR_CAST2 cfg ty ty1 e fld val env u1 u)) \<and>
   map c_addr (snd (PTR_CAST2_CONST cfg ty ty1 e fld val env u1 u)) =
     map c_addr (snd (PTR_CAST2 cfg ty ty1 e fld val env u1 u))"
  by (simp add: PTR_CAST_def PTR_CAST_CONST_def PTR_CAST2_def PTR_CAST2_CONST_def
      PTR_CAST_ALL_fst PTR_CAST_ALL_snd PTR_CAST2_ALL_fst PTR_CAST2_ALL_snd
      requalify_call_def alignment_fmt_def)

text \<open>
  C10 as it is stated, with the result type as the only difference, fails on the member
  cast. The two variants do not emit the same text: the second diagnostic
  of \<^verbatim>\<open>PTR_CAST2_CONST\<close> quotes the expression of line 96 with \<^verbatim>\<open>const\<close> in it, that
  of \<^verbatim>\<open>PTR_CAST2\<close> without.
\<close>

theorem PTR_CAST2_CONST_text_differs:
  "snd (PTR_CAST2 \<lparr>cast_via_void = False, check_cast_align = True\<rparr>
     \<lparr>ty_name = ''uint32_t'', ty_alignof = 4\<rparr> \<lparr>ty_name = ''struct I'', ty_alignof = 4\<rparr>
     ''buf'' \<lparr>f_name = ''x'', f_type = ''uint32_t'', f_offset = 4\<rparr>
     (\<lambda>sc. \<lparr>p_const = Unqualified, p_type = ''char'', p_addr = sc ''buf''\<rparr>)
     ((\<lambda>_. 0)(''buf'' := 0x1001 :: 64 word)) 0 0) \<noteq>
   snd (PTR_CAST2_CONST \<lparr>cast_via_void = False, check_cast_align = True\<rparr>
     \<lparr>ty_name = ''uint32_t'', ty_alignof = 4\<rparr> \<lparr>ty_name = ''struct I'', ty_alignof = 4\<rparr>
     ''buf'' \<lparr>f_name = ''x'', f_type = ''uint32_t'', f_offset = 4\<rparr>
     (\<lambda>sc. \<lparr>p_const = Unqualified, p_type = ''char'', p_addr = sc ''buf''\<rparr>)
     ((\<lambda>_. 0)(''buf'' := 0x1001 :: 64 word)) 0 0)"
  by (simp add: PTR_CAST2_def PTR_CAST2_CONST_def PTR_CAST2_ALL_snd alignment_fmt_def)

end
